theory Spec2Isabelle
  imports Main
begin

section \<open>JavaScript values and WebSocket objects\<close>

text \<open>
  The values that travel through the relay are the results of \<^verbatim>\<open>JSON.parse\<close> and the
  object literals of \<^verbatim>\<open>server.js\<close>. An object is a list of key/value pairs, read with
  \<open>map_of\<close>. Numbers are integers here (product ids); fractions are not modelled.
  \<^verbatim>\<open>undefined\<close> is \<open>None\<close> of \<open>json option\<close>.
\<close>

datatype json =
    JNull
  | JBool bool
  | JNum int
  | JStr string
  | JArr "json list"
  | JObj "(string \<times> json) list"

text \<open>Exceptions of the runtime and of the \<^verbatim>\<open>ws\<close> library, as values.\<close>

datatype exn =
    TypeError          \<comment> \<open>property read on \<^verbatim>\<open>null\<close> or \<^verbatim>\<open>undefined\<close>\<close>
  | SyntaxError        \<comment> \<open>\<^verbatim>\<open>JSON.parse\<close> on a malformed text\<close>
  | ReadError          \<comment> \<open>\<^verbatim>\<open>readFile\<close> rejected\<close>
  | NotOpen            \<comment> \<open>\<^verbatim>\<open>ws.send\<close> while the socket is still connecting\<close>
  | Error string       \<comment> \<open>\<^verbatim>\<open>new Error(text)\<close>\<close>

text \<open>JavaScript truthiness of a value (\<^verbatim>\<open>x ? a : b\<close>, \<^verbatim>\<open>x || d\<close>).\<close>

fun truthy :: "json option \<Rightarrow> bool" where
  "truthy None = False"
| "truthy (Some JNull) = False"
| "truthy (Some (JBool b)) = b"
| "truthy (Some (JNum n)) = (n \<noteq> 0)"
| "truthy (Some (JStr s)) = (s \<noteq> [])"
| "truthy (Some (JArr xs)) = True"
| "truthy (Some (JObj kvs)) = True"

text \<open>\<^verbatim>\<open>Array.isArray\<close>\<close>

fun is_array :: "json \<Rightarrow> bool" where
  "is_array (JArr xs) = True"
| "is_array v = False"

text \<open>
  Property read \<^verbatim>\<open>v.k\<close> for the keys the programs use (none of them is a built-in
  property of strings, arrays, numbers or booleans): an object yields its entry, every
  other non-null value yields \<^verbatim>\<open>undefined\<close>, and \<^verbatim>\<open>null\<close>/\<^verbatim>\<open>undefined\<close> throw.
\<close>

fun get_prop :: "json option \<Rightarrow> string \<Rightarrow> exn + json option" where
  "get_prop None k = Inl TypeError"
| "get_prop (Some JNull) k = Inl TypeError"
| "get_prop (Some (JObj kvs)) k = Inr (map_of kvs k)"
| "get_prop (Some v) k = Inr None"

text \<open>Nullish coalescing \<^verbatim>\<open>x ?? d\<close>.\<close>

fun nullish_or :: "json option \<Rightarrow> json \<Rightarrow> json" where
  "nullish_or None d = d"
| "nullish_or (Some JNull) d = d"
| "nullish_or (Some v) d = v"

text \<open>
  A WebSocket object of the \<^verbatim>\<open>ws\<close> library: its \<^verbatim>\<open>readyState\<close>, the frames that
  \<^verbatim>\<open>send\<close> has written to the connection, oldest first, and whether the connection
  underneath still takes writes. \<open>transport_up\<close> is not visible to the program: a socket
  whose peer has gone stays \<^verbatim>\<open>OPEN\<close> until the library has handled the failure.
\<close>

datatype ready_state = CONNECTING | OPEN | CLOSING | CLOSED

record ws =
  readyState :: ready_state
  sent :: "string list"
  transport_up :: bool

definition new_WebSocket :: ws where
  "new_WebSocket = \<lparr>readyState = CONNECTING, sent = [], transport_up = True\<rparr>"

text \<open>
  \<^verbatim>\<open>socket.send(data)\<close> with no callback, as the \<^verbatim>\<open>ws\<close> library documents it: it
  throws while the socket is connecting, transmits when it is open, and drops the frame
  without an exception when the socket is closing or closed. A write that fails on an open
  socket does not throw either: the frame is lost, the call returns, and the library
  reports the failure later through the socket's own events.
\<close>

definition ws_send :: "ws \<Rightarrow> string \<Rightarrow> exn + ws" where
  "ws_send s data =
     (case readyState s of
        CONNECTING \<Rightarrow> Inl NotOpen
      | OPEN \<Rightarrow> (if transport_up s then Inr (s\<lparr>sent := sent s @ [data]\<rparr>) else Inr s)
      | CLOSING \<Rightarrow> Inr s
      | CLOSED \<Rightarrow> Inr s)"

section \<open>The relay state of server.js\<close>

text \<open>
  The module-level variables of the relay. \<open>sockets\<close> is the heap of upstream WebSocket
  objects created so far (a socket is named by its index, and stays alive with its handlers
  after \<open>vmcSocket\<close> is reassigned); \<open>timers\<close> counts the pending \<^verbatim>\<open>setTimeout\<close>
  callbacks of \<^verbatim>\<open>scheduleVmcReconnect\<close>; \<open>clients\<close> is \<^verbatim>\<open>wss.clients\<close> in insertion order.
\<close>

record relay =
  sockets :: "ws list"
  vmcSocket :: "nat option"
  vmcConnected :: bool
  vmcReconnectScheduled :: bool
  pendingMessagesQueue :: "json list"
  timers :: nat
  clients :: "ws list"

definition initial_relay :: relay where
  "initial_relay =
     \<lparr>sockets = [], vmcSocket = None, vmcConnected = False, vmcReconnectScheduled = False,
      pendingMessagesQueue = [], timers = 0, clients = []\<rparr>"

text \<open>\<^verbatim>\<open>vmcSocket && vmcSocket.readyState === WebSocket.OPEN\<close>\<close>

definition vmcSocket_open :: "relay \<Rightarrow> bool" where
  "vmcSocket_open st =
     (case vmcSocket st of
        None \<Rightarrow> False
      | Some i \<Rightarrow> i < length (sockets st) \<and> readyState (sockets st ! i) = OPEN)"

text \<open>
  \<^verbatim>\<open>ensureVmcConnection\<close>: return at once when the flag is set and the current socket is
  open; otherwise create a socket and make it the current one. (Its four handlers are the
  functions \<open>on_open\<close>, \<open>on_message\<close>, \<open>on_close\<close> and \<open>on_error\<close> below.)
\<close>

definition ensureVmcConnection :: "relay \<Rightarrow> relay" where
  "ensureVmcConnection st =
     (if vmcConnected st \<and> vmcSocket_open st then st
      else st\<lparr>sockets := sockets st @ [new_WebSocket],
              vmcSocket := Some (length (sockets st))\<rparr>)"

text \<open>\<^verbatim>\<open>vmcSocket.send(data)\<close> on the socket that the variable names at the time of the call.\<close>

definition vmcSocket_send :: "string \<Rightarrow> relay \<Rightarrow> exn + relay" where
  "vmcSocket_send data st =
     (case vmcSocket st of
        None \<Rightarrow> Inl TypeError
      | Some i \<Rightarrow>
          if i < length (sockets st) then
            (case ws_send (sockets st ! i) data of
               Inl e \<Rightarrow> Inl e
             | Inr s \<Rightarrow> Inr (st\<lparr>sockets := (sockets st)[i := s]\<rparr>))
          else Inl TypeError)"

text \<open>
  A call of \<^verbatim>\<open>JSON.stringify\<close>, with the text it returns given by the parameter
  \<open>stringify\<close>: the call adds its argument to the log of serialisations made so far.
\<close>

definition JSON_stringify :: "(json \<Rightarrow> string) \<Rightarrow> json \<Rightarrow> json list \<Rightarrow> string \<times> json list" where
  "JSON_stringify stringify v calls = (stringify v, calls @ [v])"

text \<open>
  \<^verbatim>\<open>broadcastToFrontend\<close>. \<^verbatim>\<open>forEach\<close> stops at the first exception that its callback
  throws, keeping what the earlier iterations did, so the loop returns the clients together
  with the exception, if any. The function returns the state, the exception, if any, and
  the log of the serialisations it has made.
\<close>

fun broadcast_forEach :: "string \<Rightarrow> ws list \<Rightarrow> ws list \<times> exn option" where
  "broadcast_forEach payload [] = ([], None)"
| "broadcast_forEach payload (client # rest) =
     (if readyState client = OPEN then
        (case ws_send client payload of
           Inl e \<Rightarrow> (client # rest, Some e)
         | Inr client' \<Rightarrow>
             (case broadcast_forEach payload rest of
                (rest', r) \<Rightarrow> (client' # rest', r)))
      else
        (case broadcast_forEach payload rest of
           (rest', r) \<Rightarrow> (client # rest', r)))"

definition broadcastToFrontend ::
  "(json \<Rightarrow> string) \<Rightarrow> json \<Rightarrow> relay \<Rightarrow> relay \<times> exn option \<times> json list" where
  "broadcastToFrontend stringify messageObj st =
     (case JSON_stringify stringify messageObj [] of
        (payload, calls) \<Rightarrow>
          (case broadcast_forEach payload (clients st) of
             (cs, r) \<Rightarrow> (st\<lparr>clients := cs\<rparr>, r, calls)))"

text \<open>
  The flush of the \<^verbatim>\<open>open\<close> handler:
  \<^verbatim>\<open>pendingMessagesQueue.forEach((msg) => vmcSocket.send(JSON.stringify(msg)))\<close>.
  An exception of \<^verbatim>\<open>send\<close> leaves the handler uncaught.
\<close>

fun flush_forEach :: "(json \<Rightarrow> string) \<Rightarrow> json list \<Rightarrow> relay \<Rightarrow> exn + relay" where
  "flush_forEach stringify [] st = Inr st"
| "flush_forEach stringify (msg # msgs) st =
     (case vmcSocket_send (stringify msg) st of
        Inl e \<Rightarrow> Inl e
      | Inr st' \<Rightarrow> flush_forEach stringify msgs st')"

definition on_open :: "(json \<Rightarrow> string) \<Rightarrow> relay \<Rightarrow> exn + relay" where
  "on_open stringify st =
     (let st1 = st\<lparr>vmcConnected := True, vmcReconnectScheduled := False\<rparr> in
      case flush_forEach stringify (pendingMessagesQueue st1) st1 of
        Inl e \<Rightarrow> Inl e
      | Inr st2 \<Rightarrow> Inr (st2\<lparr>pendingMessagesQueue := []\<rparr>))"

text \<open>
  The \<^verbatim>\<open>message\<close> handler: \<^verbatim>\<open>JSON.parse\<close> is the parameter \<open>parse\<close> (\<open>None\<close> when it
  throws). The \<^verbatim>\<open>catch\<close> swallows every exception of the block.
\<close>

definition on_message :: "(string \<Rightarrow> json option) \<Rightarrow> (json \<Rightarrow> string) \<Rightarrow> string \<Rightarrow> relay \<Rightarrow> relay" where
  "on_message parse stringify data st =
     (case parse data of
        None \<Rightarrow> st
      | Some parsed \<Rightarrow> fst (broadcastToFrontend stringify parsed st))"

definition scheduleVmcReconnect :: "relay \<Rightarrow> relay" where
  "scheduleVmcReconnect st =
     (if vmcReconnectScheduled st then st
      else st\<lparr>vmcReconnectScheduled := True, timers := timers st + 1\<rparr>)"

definition on_close :: "relay \<Rightarrow> relay" where
  "on_close st = scheduleVmcReconnect (st\<lparr>vmcConnected := False\<rparr>)"

definition on_error :: "relay \<Rightarrow> relay" where
  "on_error st = scheduleVmcReconnect (st\<lparr>vmcConnected := False\<rparr>)"

text \<open>The callback that \<^verbatim>\<open>scheduleVmcReconnect\<close> hands to \<^verbatim>\<open>setTimeout\<close>.\<close>

definition reconnect_callback :: "relay \<Rightarrow> relay" where
  "reconnect_callback st = ensureVmcConnection (st\<lparr>vmcReconnectScheduled := False\<rparr>)"

text \<open>
  Send now when the current socket is open, else queue: the \<^verbatim>\<open>if\<close>/\<^verbatim>\<open>else\<close> shared by
  the connection handler and the payment endpoint.
\<close>

definition send_or_queue :: "(json \<Rightarrow> string) \<Rightarrow> json \<Rightarrow> relay \<Rightarrow> exn + relay" where
  "send_or_queue stringify command st =
     (if vmcSocket_open st then vmcSocket_send (stringify command) st
      else Inr (st\<lparr>pendingMessagesQueue := pendingMessagesQueue st @ [command]\<rparr>))"

definition statusCommand :: json where
  "statusCommand = JObj [(''type'', JStr ''status'')]"

definition backend_status :: json where
  "backend_status = JObj [(''type'', JStr ''backend-status''), (''message'', JStr ''connected'')]"

text \<open>
  The \<^verbatim>\<open>wss.on('connection', ...)\<close> handler for the client at index \<open>c\<close> of \<open>clients\<close>.
\<close>

definition on_connection :: "(json \<Rightarrow> string) \<Rightarrow> nat \<Rightarrow> relay \<Rightarrow> exn + relay" where
  "on_connection stringify c st =
     (case send_or_queue stringify statusCommand (ensureVmcConnection st) of
        Inl e \<Rightarrow> Inl e
      | Inr st' \<Rightarrow>
          if c < length (clients st') then
            (case ws_send (clients st' ! c) (stringify backend_status) of
               Inl e \<Rightarrow> Inl e
             | Inr w \<Rightarrow> Inr (st'\<lparr>clients := (clients st')[c := w]\<rparr>))
          else Inl TypeError)"

text \<open>
  \<^verbatim>\<open>POST /api/pay\<close>. \<open>body\<close> is \<^verbatim>\<open>req.body\<close>; the result is the HTTP response and the
  relay state.
\<close>

record response =
  status :: nat
  body :: json

definition itemArray_of :: "json option \<Rightarrow> json list" where
  "itemArray_of items =
     (case items of
        None \<Rightarrow> []
      | Some (JArr xs) \<Rightarrow> xs
      | Some v \<Rightarrow> (if truthy (Some v) then [v] else []))"

definition vendCommand :: "json list \<Rightarrow> json" where
  "vendCommand itemArray = JObj [(''type'', JStr ''vend''), (''items'', JArr itemArray)]"

definition pay :: "(json \<Rightarrow> string) \<Rightarrow> json option \<Rightarrow> relay \<Rightarrow> exn + response \<times> relay" where
  "pay stringify req_body st =
     (case get_prop (if truthy req_body then req_body else Some (JObj [])) ''items'' of
        Inl e \<Rightarrow> Inl e
      | Inr items \<Rightarrow>
          (let itemArray = itemArray_of items in
           if itemArray = [] then
             Inr (\<lparr>status = 400, body = JObj [(''error'', JStr ''items array required'')]\<rparr>, st)
           else
             (case send_or_queue stringify (vendCommand itemArray) (ensureVmcConnection st) of
                Inl e \<Rightarrow> Inl e
              | Inr st' \<Rightarrow>
                  Inr (\<lparr>status = 200,
                        body = JObj [(''ok'', JBool True),
                                     (''message'', JStr ''Payment processed, vending requested''),
                                     (''requestedItems'', JArr itemArray)]\<rparr>, st'))))"

section \<open>Events of the relay process\<close>

text \<open>
  What the event loop can deliver: the \<^verbatim>\<open>listen\<close> callback, a browser connecting, a
  payment request, the four events of an upstream socket, and a reconnect timer firing.
  The library moves the socket's \<^verbatim>\<open>readyState\<close> before it calls the handler.
  \<open>ClientLost c\<close> is the peer of client \<open>c\<close> going away: no handler runs, and writes to the
  client fail from then on.
\<close>

datatype event =
    Listen
  | Connection
  | Pay "json option"
  | VmcOpen nat
  | VmcMessage nat string
  | VmcError nat
  | VmcClose nat
  | Timer
  | ClientLost nat

definition set_readyState :: "nat \<Rightarrow> ready_state \<Rightarrow> relay \<Rightarrow> relay" where
  "set_readyState i r st = st\<lparr>sockets := (sockets st)[i := (sockets st ! i)\<lparr>readyState := r\<rparr>]\<rparr>"

fun enabled :: "event \<Rightarrow> relay \<Rightarrow> bool" where
  "enabled Listen st = True"
| "enabled Connection st = True"
| "enabled (Pay b) st = True"
| "enabled (VmcOpen i) st = (i < length (sockets st) \<and> readyState (sockets st ! i) = CONNECTING)"
| "enabled (VmcMessage i d) st = (i < length (sockets st) \<and> readyState (sockets st ! i) = OPEN)"
| "enabled (VmcError i) st =
     (i < length (sockets st) \<and> readyState (sockets st ! i) \<in> {CONNECTING, OPEN})"
| "enabled (VmcClose i) st = (i < length (sockets st) \<and> readyState (sockets st ! i) \<noteq> CLOSED)"
| "enabled Timer st = (0 < timers st)"
| "enabled (ClientLost c) st = (c < length (clients st) \<and> readyState (clients st ! c) = OPEN)"

fun step :: "(string \<Rightarrow> json option) \<Rightarrow> (json \<Rightarrow> string) \<Rightarrow> event \<Rightarrow> relay \<Rightarrow> exn + relay" where
  "step parse stringify Listen st = Inr (ensureVmcConnection st)"
| "step parse stringify Connection st =
     on_connection stringify (length (clients st))
       (st\<lparr>clients := clients st @ [\<lparr>readyState = OPEN, sent = [], transport_up = True\<rparr>]\<rparr>)"
| "step parse stringify (Pay b) st =
     (case pay stringify b st of Inl e \<Rightarrow> Inl e | Inr (r, st') \<Rightarrow> Inr st')"
| "step parse stringify (VmcOpen i) st = on_open stringify (set_readyState i OPEN st)"
| "step parse stringify (VmcMessage i d) st = Inr (on_message parse stringify d st)"
| "step parse stringify (VmcError i) st = Inr (on_error (set_readyState i CLOSING st))"
| "step parse stringify (VmcClose i) st = Inr (on_close (set_readyState i CLOSED st))"
| "step parse stringify Timer st = Inr (reconnect_callback (st\<lparr>timers := timers st - 1\<rparr>))"
| "step parse stringify (ClientLost c) st =
     Inr (st\<lparr>clients := (clients st)[c := (clients st ! c)\<lparr>transport_up := False\<rparr>]\<rparr>)"

datatype outcome = Running relay | Uncaught exn | Infeasible

fun run :: "(string \<Rightarrow> json option) \<Rightarrow> (json \<Rightarrow> string) \<Rightarrow> event list \<Rightarrow> relay \<Rightarrow> outcome" where
  "run parse stringify [] st = Running st"
| "run parse stringify (e # es) st =
     (if enabled e st then
        (case step parse stringify e st of
           Inl x \<Rightarrow> Uncaught x
         | Inr st' \<Rightarrow> run parse stringify es st')
      else Infeasible)"

text \<open>The number of upstream sockets that are open at the same time.\<close>

definition open_sockets :: "relay \<Rightarrow> nat" where
  "open_sockets st = length (filter (\<lambda>s. readyState s = OPEN) (sockets st))"

text \<open>
  Stand-ins for \<^verbatim>\<open>JSON.stringify\<close> and \<^verbatim>\<open>JSON.parse\<close> in the concrete runs below: a frame
  is written as the value of the object's first field (its \<^verbatim>\<open>type\<close> tag), and the empty
  text is the malformed frame.
\<close>

definition tag_stringify :: "json \<Rightarrow> string" where
  "tag_stringify j = (case j of JObj ((k, JStr t) # kvs) \<Rightarrow> t | _ \<Rightarrow> ''?'')"

definition tag_parse :: "string \<Rightarrow> json option" where
  "tag_parse s = (if s = [] then None else Some (JObj [(''type'', JStr s)]))"

section \<open>The product catalogue of server.js\<close>

text \<open>
  \<^verbatim>\<open>mapProduct\<close>. The fields of the object literal are computed in the order written.
  The first property read throws on \<^verbatim>\<open>null\<close>; once it has succeeded the later reads of
  the same value cannot throw. \<^verbatim>\<open>Number\<close> is a parameter that may throw: the conversion
  of an object to a primitive raises a \<^verbatim>\<open>TypeError\<close> when neither \<^verbatim>\<open>valueOf\<close> nor
  \<^verbatim>\<open>toString\<close> yields one, as for a parsed \<^verbatim>\<open>{"toString": 1}\<close>. A field that may be
  \<^verbatim>\<open>undefined\<close> is a \<open>json option\<close>.
\<close>

record meta_data =
  sku_id :: json
  brand_id :: json

record 'n product =
  id' :: "json option"
  name :: "json option"
  price :: 'n
  image_url :: string
  category :: json
  meta_data :: meta_data

definition read_prop :: "json \<Rightarrow> string \<Rightarrow> json option" where
  "read_prop raw k = (case get_prop (Some raw) k of Inl e \<Rightarrow> None | Inr v \<Rightarrow> v)"

definition mapProduct :: "(json \<Rightarrow> exn + 'n) \<Rightarrow> json \<Rightarrow> exn + 'n product" where
  "mapProduct Number raw =
     (case get_prop (Some raw) ''product_id'' of
        Inl e \<Rightarrow> Inl e
      | Inr pid \<Rightarrow>
          (case Number (nullish_or (read_prop raw ''product_price'') (JNum 0)) of
             Inl e \<Rightarrow> Inl e
           | Inr n \<Rightarrow>
               Inr \<lparr>id' = pid,
                    name = read_prop raw ''product_name'',
                    price = n,
                    image_url =
                      (case read_prop raw ''image'' of
                         Some (JStr s) \<Rightarrow> (if take 4 s = ''http'' then s else [])
                       | _ \<Rightarrow> []),
                    category = nullish_or (read_prop raw ''category_id'') JNull,
                    meta_data =
                      \<lparr>sku_id = nullish_or (read_prop raw ''sku_id'') JNull,
                       brand_id = nullish_or (read_prop raw ''brand_id'') JNull\<rparr>\<rparr>))"

text \<open>\<^verbatim>\<open>data.map(mapProduct)\<close>: the first exception ends the map.\<close>

fun map_mapProduct :: "(json \<Rightarrow> exn + 'n) \<Rightarrow> json list \<Rightarrow> exn + 'n product list" where
  "map_mapProduct Number [] = Inr []"
| "map_mapProduct Number (raw # rest) =
     (case mapProduct Number raw of
        Inl e \<Rightarrow> Inl e
      | Inr p \<Rightarrow>
          (case map_mapProduct Number rest of
             Inl e \<Rightarrow> Inl e
           | Inr ps \<Rightarrow> Inr (p # ps)))"

text \<open>
  The four candidate paths; \<^verbatim>\<open>path.resolve\<close>, \<^verbatim>\<open>__dirname\<close> and \<^verbatim>\<open>process.cwd()\<close> are
  parameters.
\<close>

definition candidates :: "(string \<Rightarrow> string \<Rightarrow> string) \<Rightarrow> string \<Rightarrow> string \<Rightarrow> string list" where
  "candidates resolve dirname cwd =
     [resolve dirname ''../data.json'', resolve dirname ''../../data.json'',
      resolve cwd ''data.json'', resolve cwd ''../data.json'']"

text \<open>
  What the body of the \<^verbatim>\<open>try\<close> block does with one candidate: read, parse, and map when
  the value is an array. \<open>readFile\<close> and \<open>parse\<close> are \<open>None\<close> where the real ones throw.
\<close>

definition try_candidate ::
  "(string \<Rightarrow> string option) \<Rightarrow> (string \<Rightarrow> json option) \<Rightarrow> (json \<Rightarrow> exn + 'n) \<Rightarrow> string
     \<Rightarrow> exn + 'n product list" where
  "try_candidate readFile parse Number p =
     (case readFile p of
        None \<Rightarrow> Inl ReadError
      | Some content \<Rightarrow>
          (case parse content of
             None \<Rightarrow> Inl SyntaxError
           | Some (JArr xs) \<Rightarrow> map_mapProduct Number xs
           | Some v \<Rightarrow> Inr []))"

text \<open>The loop of \<^verbatim>\<open>loadProducts\<close>, with \<^verbatim>\<open>lastErr\<close> as an argument.\<close>

fun loadProducts_loop ::
  "(string \<Rightarrow> string option) \<Rightarrow> (string \<Rightarrow> json option) \<Rightarrow> (json \<Rightarrow> exn + 'n) \<Rightarrow> string list
     \<Rightarrow> exn option \<Rightarrow> exn + 'n product list" where
  "loadProducts_loop readFile parse Number [] lastErr =
     Inl (case lastErr of None \<Rightarrow> Error ''Failed to read data.json'' | Some e \<Rightarrow> e)"
| "loadProducts_loop readFile parse Number (p # ps) lastErr =
     (case try_candidate readFile parse Number p of
        Inr products \<Rightarrow> Inr products
      | Inl e \<Rightarrow> loadProducts_loop readFile parse Number ps (Some e))"

definition loadProducts ::
  "(string \<Rightarrow> string option) \<Rightarrow> (string \<Rightarrow> json option) \<Rightarrow> (json \<Rightarrow> exn + 'n) \<Rightarrow> string list
     \<Rightarrow> exn + 'n product list" where
  "loadProducts readFile parse Number cands = loadProducts_loop readFile parse Number cands None"

text \<open>\<^verbatim>\<open>GET /api/products\<close>: the products with status 200, or the error object with 500.\<close>

datatype 'n products_response = Products200 "'n product list" | Error500 json

definition get_products ::
  "(string \<Rightarrow> string option) \<Rightarrow> (string \<Rightarrow> json option) \<Rightarrow> (json \<Rightarrow> exn + 'n) \<Rightarrow> string list
     \<Rightarrow> 'n products_response" where
  "get_products readFile parse Number cands =
     (case loadProducts readFile parse Number cands of
        Inr products \<Rightarrow> Products200 products
      | Inl e \<Rightarrow> Error500 (JObj [(''error'', JStr ''Failed to load products'')]))"

section \<open>The vend state of the Products page\<close>

text \<open>
  The React state of the page that the WebSocket handler writes: \<^verbatim>\<open>isVending\<close>,
  \<^verbatim>\<open>activeMessage\<close> (the toast) and \<^verbatim>\<open>modal\<close> (the overlay). The two timer refs hold
  the deadline, in milliseconds of the clock \<open>now\<close>, of the pending \<^verbatim>\<open>setTimeout\<close>
  callback, if any: each is cleared before it is set again, so at most one of each is
  pending.
\<close>

datatype stage = Idle | Vending | Complete

record modal =
  open' :: bool
  stage :: stage
  text' :: string

record ui =
  isVending :: bool
  activeMessage :: string
  modal :: modal
  modalTimerRef :: "nat option"
  toastTimeoutRef :: "nat option"
  now :: nat

text \<open>
  \<^verbatim>\<open>BackendMessage\<close> as the handler tells its cases apart: the status string and the
  optional message of a \<^verbatim>\<open>status\<close> event, the flag and the optional message of a
  \<^verbatim>\<open>vend-response\<close>, \<^verbatim>\<open>vend-complete\<close>, and every other record.
\<close>

datatype backend_message =
    Status string "string option"
  | VendResponse bool "string option"
  | VendComplete
  | Other

definition initial_modal :: modal where
  "initial_modal = \<lparr>open' = False, stage = Idle, text' = []\<rparr>"

definition initial_ui :: ui where
  "initial_ui =
     \<lparr>isVending = False, activeMessage = [], modal = initial_modal,
      modalTimerRef = None, toastTimeoutRef = None, now = 0\<rparr>"

definition showToast :: "string \<Rightarrow> ui \<Rightarrow> ui" where
  "showToast t st = st\<lparr>activeMessage := t, toastTimeoutRef := Some (now st + 2500)\<rparr>"

text \<open>
  The handler passed to \<^verbatim>\<open>connectBackendWS\<close>. Its first argument is the \<^verbatim>\<open>modal\<close>
  binding that the closure reads in \<^verbatim>\<open>modal.stage !== 'complete'\<close>; the functional
  update \<^verbatim>\<open>setModal((m) => ...)\<close> works on the current state. The two overlay texts end
  in the UTF-8 bytes of an ellipsis and of an emoji.
\<close>

definition onMessage :: "modal \<Rightarrow> backend_message \<Rightarrow> ui \<Rightarrow> ui" where
  "onMessage closure_modal msg st =
     (case msg of
        Status s message \<Rightarrow>
          if s = ''vending'' then
            st\<lparr>isVending := True,
               activeMessage := (case message of None \<Rightarrow> ''Vending started'' | Some t \<Rightarrow> t),
               modal := \<lparr>open' = True, stage = Vending,
                         text' = ''Vending in progress'' @ [CHR 0xE2, CHR 0x80, CHR 0xA6]\<rparr>\<rparr>
          else
            (let st1 = st\<lparr>isVending := False, activeMessage := []\<rparr> in
             if stage closure_modal \<noteq> Complete then
               st1\<lparr>modal := (modal st1)\<lparr>open' := False, stage := Idle, text' := []\<rparr>\<rparr>
             else st1)
      | VendResponse success message \<Rightarrow>
          if success then
            st\<lparr>isVending := True,
               activeMessage := ''Vending started'',
               modal := \<lparr>open' = True, stage = Vending,
                         text' = ''Vending started'' @ [CHR 0xE2, CHR 0x80, CHR 0xA6]\<rparr>\<rparr>
          else
            showToast
              (case message of
                 None \<Rightarrow> ''Machine busy''
               | Some t \<Rightarrow> (if t = [] then ''Machine busy'' else t))
              (st\<lparr>isVending := False\<rparr>)
      | VendComplete \<Rightarrow>
          showToast ''Vending complete''
            (st\<lparr>isVending := False,
                modal := \<lparr>open' = True, stage = Complete,
                          text' = ''Vending complete! '' @ [CHR 0xF0, CHR 0x9F, CHR 0x8E, CHR 0x89]\<rparr>,
                modalTimerRef := Some (now st + 1500)\<rparr>)
      | Other \<Rightarrow> st)"

text \<open>
  The effect runs once, after the first render (its dependency list is empty), so the
  closure holds the \<^verbatim>\<open>modal\<close> of that render: the initial one.
\<close>

definition Products_onMessage :: "backend_message \<Rightarrow> ui \<Rightarrow> ui" where
  "Products_onMessage = onMessage initial_modal"

text \<open>
  \<open>d\<close> milliseconds pass: a pending callback whose deadline is reached runs. The modal
  callback closes the overlay, the toast callback clears the message.
\<close>

definition elapse :: "nat \<Rightarrow> ui \<Rightarrow> ui" where
  "elapse d st =
     (let t = now st + d;
          st1 = (case modalTimerRef st of
                   None \<Rightarrow> st
                 | Some deadline \<Rightarrow>
                     if deadline \<le> t
                     then st\<lparr>modal := \<lparr>open' = False, stage = Idle, text' = []\<rparr>,
                             modalTimerRef := None\<rparr>
                     else st);
          st2 = (case toastTimeoutRef st1 of
                   None \<Rightarrow> st1
                 | Some deadline \<Rightarrow>
                     if deadline \<le> t
                     then st1\<lparr>activeMessage := [], toastTimeoutRef := None\<rparr>
                     else st1)
      in st2\<lparr>now := t\<rparr>)"

datatype ui_event = Message backend_message | Elapse nat

fun ui_step :: "ui_event \<Rightarrow> ui \<Rightarrow> ui" where
  "ui_step (Message msg) st = Products_onMessage msg st"
| "ui_step (Elapse d) st = elapse d st"

text \<open>The states the page goes through: the start state, then one per event.\<close>

fun ui_trace :: "ui_event list \<Rightarrow> ui \<Rightarrow> ui list" where
  "ui_trace [] st = [st]"
| "ui_trace (e # es) st = st # ui_trace es (ui_step e st)"

text \<open>
  How many times the text \<open>t\<close> comes up in a sequence of toast texts: the positions that
  show \<open>t\<close> right after a different text (\<open>prev\<close> is the text before the sequence).
\<close>

fun appearances :: "string \<Rightarrow> string \<Rightarrow> string list \<Rightarrow> nat" where
  "appearances t prev [] = 0"
| "appearances t prev (x # xs) =
     (if x = t \<and> prev \<noteq> t then 1 else 0) + appearances t x xs"

section \<open>Observers and test environments\<close>

text \<open>What a run shows of its final state; nothing when the process died or the run is impossible.\<close>

fun observe :: "(relay \<Rightarrow> 'a) \<Rightarrow> outcome \<Rightarrow> 'a option" where
  "observe f (Running st) = Some (f st)"
| "observe f (Uncaught e) = None"
| "observe f Infeasible = None"

text \<open>
  An array element cannot be mapped when it is \<^verbatim>\<open>null\<close>, or when \<^verbatim>\<open>Number\<close> throws on
  its \<^verbatim>\<open>product_price\<close> (on 0 when the price is missing or \<^verbatim>\<open>null\<close>).
\<close>

definition unmappable :: "(json \<Rightarrow> exn + 'n) \<Rightarrow> json \<Rightarrow> bool" where
  "unmappable Number raw =
     (raw = JNull \<or> isl (Number (nullish_or (read_prop raw ''product_price'') (JNum 0))))"

text \<open>
  A candidate path fails when the file cannot be read, when its text does not parse, or
  when it parses to an array that holds an element that cannot be mapped.
\<close>

definition candidate_fails ::
  "(string \<Rightarrow> string option) \<Rightarrow> (string \<Rightarrow> json option) \<Rightarrow> (json \<Rightarrow> exn + 'n) \<Rightarrow> string
     \<Rightarrow> bool" where
  "candidate_fails readFile parse Number p =
     (case readFile p of
        None \<Rightarrow> True
      | Some content \<Rightarrow>
          (case parse content of
             None \<Rightarrow> True
           | Some (JArr xs) \<Rightarrow> list_ex (unmappable Number) xs
           | Some v \<Rightarrow> False))"

text \<open>
  A small installation for the concrete catalogue runs: the server file lies in
  \<^verbatim>\<open>/srv/backend/src\<close>, the process runs in \<^verbatim>\<open>/srv/backend\<close>, and the only data file is
  \<^verbatim>\<open>/srv/data.json\<close>. \<open>resolve_table\<close> is \<^verbatim>\<open>path.resolve\<close> on the arguments used,
  \<open>parse_table\<close> is \<^verbatim>\<open>JSON.parse\<close> on the texts used (\<open>price_text\<close> is the text
  \<^verbatim>\<open>[{"product_id":1,"product_price":{"toString":1}}]\<close>), and \<open>Number_table\<close> is
  \<^verbatim>\<open>Number\<close> on the values the runs apply it to: a number is itself, \<^verbatim>\<open>null\<close> and
  \<^verbatim>\<open>false\<close> are 0, \<^verbatim>\<open>true\<close> is 1, an object with an own \<^verbatim>\<open>toString\<close> entry (never
  a function in parsed JSON) throws, and any other object is \<^verbatim>\<open>NaN\<close>, written \<open>None\<close>.
  Strings and arrays, which no run converts, are left at \<open>None\<close>.
\<close>

definition resolve_table :: "string \<Rightarrow> string \<Rightarrow> string" where
  "resolve_table dir f =
     (if dir = ''/srv/backend/src'' \<and> f = ''../data.json'' then ''/srv/backend/data.json''
      else if dir = ''/srv/backend/src'' \<and> f = ''../../data.json'' then ''/srv/data.json''
      else if dir = ''/srv/backend'' \<and> f = ''data.json'' then ''/srv/backend/data.json''
      else if dir = ''/srv/backend'' \<and> f = ''../data.json'' then ''/srv/data.json''
      else dir @ ''/'' @ f)"

definition srv_candidates :: "string list" where
  "srv_candidates = candidates resolve_table ''/srv/backend/src'' ''/srv/backend''"

definition price_text :: string where
  "price_text =
     ''[{'' @ [CHR 0x22] @ ''product_id'' @ [CHR 0x22] @ '':1,''
       @ [CHR 0x22] @ ''product_price'' @ [CHR 0x22] @ '':{''
       @ [CHR 0x22] @ ''toString'' @ [CHR 0x22] @ '':1}}]''"

definition parse_table :: "string \<Rightarrow> json option" where
  "parse_table s =
     (if s = ''[null]'' then Some (JArr [JNull])
      else if s = ''{}'' then Some (JObj [])
      else if s = price_text then
        Some (JArr [JObj [(''product_id'', JNum 1),
                          (''product_price'', JObj [(''toString'', JNum 1)])]])
      else None)"

fun Number_table :: "json \<Rightarrow> exn + int option" where
  "Number_table (JNum n) = Inr (Some n)"
| "Number_table JNull = Inr (Some 0)"
| "Number_table (JBool b) = Inr (Some (if b then 1 else 0))"
| "Number_table (JObj kvs) = (if map_of kvs ''toString'' = None then Inr None else Inl TypeError)"
| "Number_table v = Inr None"

definition fs_with :: "string \<Rightarrow> string \<Rightarrow> string option" where
  "fs_with content p = (if p = ''/srv/data.json'' then Some content else None)"

section \<open>Facts about the relay\<close>

lemmas relay_defs =
  initial_relay_def ensureVmcConnection_def vmcSocket_open_def new_WebSocket_def
  on_connection_def send_or_queue_def vmcSocket_send_def ws_send_def on_open_def on_close_def
  on_error_def scheduleVmcReconnect_def reconnect_callback_def set_readyState_def pay_def
  itemArray_of_def vendCommand_def statusCommand_def backend_status_def tag_stringify_def
  tag_parse_def open_sockets_def Let_def

lemma ensureVmcConnection_connected:
  "vmcConnected st \<Longrightarrow> vmcSocket_open st \<Longrightarrow> ensureVmcConnection st = st"
  by (simp add: ensureVmcConnection_def)

text \<open>
  While the flag is set and the current socket is open, any number of calls leaves the
  state as it is: no socket is created.
\<close>

lemma ensureVmcConnection_repeated:
  "vmcConnected st \<Longrightarrow> vmcSocket_open st \<Longrightarrow> (ensureVmcConnection ^^ n) st = st"
  by (induction n) (simp_all add: ensureVmcConnection_connected)

lemma ensureVmcConnection_disconnected:
  "\<not> (vmcConnected st \<and> vmcSocket_open st) \<Longrightarrow>
   ensureVmcConnection st =
     st\<lparr>sockets := sockets st @ [new_WebSocket], vmcSocket := Some (length (sockets st))\<rparr>"
  by (auto simp: ensureVmcConnection_def)

lemma fresh_socket_not_open:
  "\<not> vmcSocket_open (st\<lparr>sockets := sockets st @ [new_WebSocket],
                         vmcSocket := Some (length (sockets st))\<rparr>)"
  by (simp add: vmcSocket_open_def new_WebSocket_def)

lemma vmcSocket_send_open:
  assumes "vmcSocket st = Some i" "i < length (sockets st)" "readyState (sockets st ! i) = OPEN"
    and "transport_up (sockets st ! i)"
  shows "vmcSocket_send data st =
           Inr (st\<lparr>sockets := (sockets st)[i := (sockets st ! i)
                     \<lparr>sent := sent (sockets st ! i) @ [data]\<rparr>]\<rparr>)"
  using assms by (simp add: vmcSocket_send_def ws_send_def)

lemma vmcSocket_send_when_open:
  "vmcSocket_open st \<Longrightarrow> \<exists>st'. vmcSocket_send data st = Inr st'"
  by (auto simp: vmcSocket_open_def vmcSocket_send_def ws_send_def split: option.splits)

text \<open>After \<^verbatim>\<open>ensureVmcConnection\<close> the command is sent when connected and queued otherwise.\<close>

lemma send_or_queue_ensure:
  "send_or_queue stringify command (ensureVmcConnection st) =
     (if vmcConnected st \<and> vmcSocket_open st then vmcSocket_send (stringify command) st
      else Inr (st\<lparr>sockets := sockets st @ [new_WebSocket],
                   vmcSocket := Some (length (sockets st)),
                   pendingMessagesQueue := pendingMessagesQueue st @ [command]\<rparr>))"
proof (cases "vmcConnected st \<and> vmcSocket_open st")
  case True
  then show ?thesis by (simp add: ensureVmcConnection_connected send_or_queue_def)
next
  case False
  then show ?thesis
    using fresh_socket_not_open [of st]
    by (auto simp: ensureVmcConnection_disconnected send_or_queue_def)
qed

text \<open>The broadcast loop never throws: it only sends to clients it has found open.\<close>

lemma broadcast_forEach_eq:
  "broadcast_forEach payload cs =
     (map (\<lambda>c. if readyState c = OPEN \<and> transport_up c
                then c\<lparr>sent := sent c @ [payload]\<rparr> else c) cs, None)"
  by (induction cs) (simp_all add: ws_send_def)

text \<open>
  When the current socket is open, the flush hands it every queued command, in queue
  order.
\<close>

lemma flush_forEach_open:
  assumes "vmcSocket st = Some i" "i < length (sockets st)" "readyState (sockets st ! i) = OPEN"
    and "transport_up (sockets st ! i)"
  shows "flush_forEach stringify msgs st =
           Inr (st\<lparr>sockets := (sockets st)[i := (sockets st ! i)
                     \<lparr>sent := sent (sockets st ! i) @ map stringify msgs\<rparr>]\<rparr>)"
  using assms
proof (induction msgs arbitrary: st)
  case Nil
  then show ?case by simp
next
  case (Cons m ms)
  let ?st' = "st\<lparr>sockets := (sockets st)[i := (sockets st ! i)
                   \<lparr>sent := sent (sockets st ! i) @ [stringify m]\<rparr>]\<rparr>"
  have s: "vmcSocket_send (stringify m) st = Inr ?st'"
    using Cons.prems by (rule vmcSocket_send_open)
  have "flush_forEach stringify ms ?st' =
          Inr (?st'\<lparr>sockets := (sockets ?st')[i := (sockets ?st' ! i)
                      \<lparr>sent := sent (sockets ?st' ! i) @ map stringify ms\<rparr>]\<rparr>)"
    using Cons.prems by (intro Cons.IH) simp_all
  with s Cons.prems show ?case by simp
qed

text \<open>
  So the \<^verbatim>\<open>open\<close> handler of the socket that \<open>vmcSocket\<close> names transmits the whole queue
  once, first in first out, and empties it (the connection taking the writes).
\<close>

lemma on_open_current_socket:
  assumes "vmcSocket st = Some i" "i < length (sockets st)" "readyState (sockets st ! i) = OPEN"
    and "transport_up (sockets st ! i)"
  shows "on_open stringify st =
           Inr (st\<lparr>vmcConnected := True, vmcReconnectScheduled := False,
                   sockets := (sockets st)[i := (sockets st ! i)
                     \<lparr>sent := sent (sockets st ! i) @ map stringify (pendingMessagesQueue st)\<rparr>],
                   pendingMessagesQueue := []\<rparr>)"
proof -
  let ?st1 = "st\<lparr>vmcConnected := True, vmcReconnectScheduled := False\<rparr>"
  have "flush_forEach stringify (pendingMessagesQueue ?st1) ?st1 =
          Inr (?st1\<lparr>sockets := (sockets ?st1)[i := (sockets ?st1 ! i)
                      \<lparr>sent := sent (sockets ?st1 ! i)
                               @ map stringify (pendingMessagesQueue ?st1)\<rparr>]\<rparr>)"
    using assms by (intro flush_forEach_open) simp_all
  then show ?thesis by (simp add: on_open_def)
qed

lemma pay_items:
  "pay stringify (Some (JObj kvs)) st =
     (let itemArray = itemArray_of (map_of kvs ''items'') in
      if itemArray = [] then
        Inr (\<lparr>status = 400, body = JObj [(''error'', JStr ''items array required'')]\<rparr>, st)
      else
        (case send_or_queue stringify (vendCommand itemArray) (ensureVmcConnection st) of
           Inl e \<Rightarrow> Inl e
         | Inr st' \<Rightarrow>
             Inr (\<lparr>status = 200,
                   body = JObj [(''ok'', JBool True),
                                (''message'', JStr ''Payment processed, vending requested''),
                                (''requestedItems'', JArr itemArray)]\<rparr>, st')))"
  by (simp add: pay_def)

lemma itemArray_of_single:
  "truthy (Some v) \<Longrightarrow> \<not> is_array v \<Longrightarrow> itemArray_of (Some v) = [v]"
  by (cases v) (simp_all add: itemArray_of_def)

section \<open>The upstream link\<close>

text \<open>
  Claim C1: \<^verbatim>\<open>ensureConnected()\<close> is idempotent; it is a no-op when the upstream is
  connected and also when a connection attempt is in flight or a reconnect timer is armed.
  The connected case is \<open>ensureVmcConnection_repeated\<close>. The other two fail: after the
  \<^verbatim>\<open>listen\<close> callback the only socket is still connecting, and one more call creates a
  second connecting socket; after that socket has failed and the reconnect timer is armed,
  a call creates a new socket as well.
\<close>

theorem ensureVmcConnection_second_attempt:
  "observe (\<lambda>st. (map readyState (sockets st),
                   map readyState (sockets (ensureVmcConnection st))))
     (run tag_parse tag_stringify [Listen] initial_relay)
     = Some ([CONNECTING], [CONNECTING, CONNECTING])
   \<and> observe (\<lambda>st. (timers st, vmcReconnectScheduled st, map readyState (sockets st),
                     map readyState (sockets (ensureVmcConnection st))))
       (run tag_parse tag_stringify [Listen, VmcError 0, VmcClose 0] initial_relay)
       = Some (1, True, [CLOSED], [CLOSED, CONNECTING])"
  by (simp add: relay_defs)

text \<open>
  Claim C2: over every sequence of events the relay never holds two open upstream sockets
  and never has two reconnect timers armed. Two runs from the start state break it. In the
  first a browser connects while the first socket is still connecting, and both sockets
  open. In the second the first socket fails (timer armed), a browser connects, the new
  socket opens (which resets the flag but not the timer) and closes again: a second timer
  is armed while the first is pending.
\<close>

theorem two_open_sockets_two_timers:
  "observe open_sockets
     (run tag_parse tag_stringify [Listen, Connection, VmcOpen 1, VmcOpen 0] initial_relay)
     = Some 2
   \<and> observe timers
       (run tag_parse tag_stringify
          [Listen, VmcError 0, VmcClose 0, Connection, VmcOpen 1, VmcClose 1] initial_relay)
       = Some 2"
  by (simp add: relay_defs)

text \<open>
  Claim C3: the commands queued while disconnected are all transmitted, first in first
  out and once each, on the first transition to connected, and the queue is then empty.
  When the socket that opens is the current one this is \<open>on_open_current_socket\<close>. But the
  handler sends on whatever \<open>vmcSocket\<close> names. A payment made while the first socket is
  connecting queues a vend command and replaces \<open>vmcSocket\<close> by a second socket. If the
  second socket fails and the first one then opens, the flush sends on the closed socket:
  the queue is emptied and no socket has transmitted anything. If the first socket opens
  while the second is still connecting, \<^verbatim>\<open>send\<close> throws out of the handler.
\<close>

theorem flush_on_other_socket_loses_commands:
  "observe (\<lambda>st. (map sent (sockets st), pendingMessagesQueue st))
     (run tag_parse tag_stringify
        [Listen, Pay (Some (JObj [(''items'', JArr [JNum 7])]))] initial_relay)
     = Some ([[], []], [JObj [(''type'', JStr ''vend''), (''items'', JArr [JNum 7])]])
   \<and> observe (\<lambda>st. (vmcConnected st, map readyState (sockets st), map sent (sockets st),
                     pendingMessagesQueue st))
       (run tag_parse tag_stringify
          [Listen, Pay (Some (JObj [(''items'', JArr [JNum 7])])), VmcError 1, VmcClose 1,
           VmcOpen 0] initial_relay)
       = Some (True, [OPEN, CLOSED], [[], []], [])
   \<and> run tag_parse tag_stringify
        [Listen, Pay (Some (JObj [(''items'', JArr [JNum 7])])), VmcOpen 0] initial_relay
       = Uncaught NotOpen"
  by (simp add: relay_defs)

section \<open>The payment endpoint\<close>

text \<open>
  Claim C6: a vend request with an empty item list is answered with the validation error
  (status 400) and changes nothing; a request with a non-empty list while the upstream is
  not connected queues exactly one vend command with these items and is answered with the
  acceptance at once.
\<close>

theorem pay_empty_rejected_nonempty_queued:
  "pay stringify (Some (JObj [(''items'', JArr [])])) st =
     Inr (\<lparr>status = 400, body = JObj [(''error'', JStr ''items array required'')]\<rparr>, st)
   \<and> (xs \<noteq> [] \<and> \<not> (vmcConnected st \<and> vmcSocket_open st) \<longrightarrow>
      pay stringify (Some (JObj [(''items'', JArr xs)])) st =
        Inr (\<lparr>status = 200,
              body = JObj [(''ok'', JBool True),
                           (''message'', JStr ''Payment processed, vending requested''),
                           (''requestedItems'', JArr xs)]\<rparr>,
             st\<lparr>sockets := sockets st @ [new_WebSocket],
                vmcSocket := Some (length (sockets st)),
                pendingMessagesQueue :=
                  pendingMessagesQueue st
                    @ [JObj [(''type'', JStr ''vend''), (''items'', JArr xs)]]\<rparr>))"
proof (intro conjI impI)
  show "pay stringify (Some (JObj [(''items'', JArr [])])) st =
     Inr (\<lparr>status = 400, body = JObj [(''error'', JStr ''items array required'')]\<rparr>, st)"
    by (simp add: pay_items itemArray_of_def)
next
  assume a: "xs \<noteq> [] \<and> \<not> (vmcConnected st \<and> vmcSocket_open st)"
  have "itemArray_of (Some (JArr xs)) = xs"
    by (simp add: itemArray_of_def)
  with a show "pay stringify (Some (JObj [(''items'', JArr xs)])) st =
        Inr (\<lparr>status = 200,
              body = JObj [(''ok'', JBool True),
                           (''message'', JStr ''Payment processed, vending requested''),
                           (''requestedItems'', JArr xs)]\<rparr>,
             st\<lparr>sockets := sockets st @ [new_WebSocket],
                vmcSocket := Some (length (sockets st)),
                pendingMessagesQueue :=
                  pendingMessagesQueue st
                    @ [JObj [(''type'', JStr ''vend''), (''items'', JArr xs)]]\<rparr>)"
    by (auto simp: pay_items send_or_queue_ensure vendCommand_def)
qed

text \<open>The request for item 7 at the start state, where nothing is connected.\<close>

theorem pay_empty_rejected_nonempty_queued_witness:
  "[JNum 7] \<noteq> [] \<and> \<not> (vmcConnected initial_relay \<and> vmcSocket_open initial_relay)
   \<and> pay tag_stringify (Some (JObj [(''items'', JArr [JNum 7])])) initial_relay =
       Inr (\<lparr>status = 200,
             body = JObj [(''ok'', JBool True),
                          (''message'', JStr ''Payment processed, vending requested''),
                          (''requestedItems'', JArr [JNum 7])]\<rparr>,
            initial_relay\<lparr>sockets := [new_WebSocket], vmcSocket := Some 0,
               pendingMessagesQueue :=
                 [JObj [(''type'', JStr ''vend''), (''items'', JArr [JNum 7])]]\<rparr>)"
  using pay_empty_rejected_nonempty_queued [of tag_stringify initial_relay "[JNum 7]"]
  by (simp add: initial_relay_def vmcSocket_open_def)

text \<open>
  The request with a non-empty item array, in full: the answer is the acceptance, and the
  vend command is written to the open upstream socket when the relay is connected, and
  queued behind a new connection attempt when it is not.
\<close>

lemma pay_nonempty:
  assumes "xs \<noteq> []"
  shows "pay stringify (Some (JObj [(''items'', JArr xs)])) st =
           Inr (\<lparr>status = 200,
                 body = JObj [(''ok'', JBool True),
                              (''message'', JStr ''Payment processed, vending requested''),
                              (''requestedItems'', JArr xs)]\<rparr>,
                if vmcConnected st \<and> vmcSocket_open st then
                  (if transport_up (sockets st ! the (vmcSocket st)) then
                     st\<lparr>sockets := (sockets st)[the (vmcSocket st) :=
                          (sockets st ! the (vmcSocket st))
                            \<lparr>sent := sent (sockets st ! the (vmcSocket st))
                                     @ [stringify (JObj [(''type'', JStr ''vend''),
                                                         (''items'', JArr xs)])]\<rparr>]\<rparr>
                   else st)
                else
                  st\<lparr>sockets := sockets st @ [new_WebSocket],
                     vmcSocket := Some (length (sockets st)),
                     pendingMessagesQueue :=
                       pendingMessagesQueue st
                         @ [JObj [(''type'', JStr ''vend''), (''items'', JArr xs)]]\<rparr>)"
proof (cases "vmcConnected st \<and> vmcSocket_open st")
  case False
  with assms show ?thesis
    by (auto simp: pay_items itemArray_of_def send_or_queue_ensure vendCommand_def)
next
  case True
  then obtain i where i: "vmcSocket st = Some i" "i < length (sockets st)"
      "readyState (sockets st ! i) = OPEN"
    by (auto simp: vmcSocket_open_def split: option.splits)
  have "vmcSocket_send data st =
          Inr (if transport_up (sockets st ! i)
               then st\<lparr>sockets := (sockets st)[i := (sockets st ! i)
                         \<lparr>sent := sent (sockets st ! i) @ [data]\<rparr>]\<rparr>
               else st)" for data
    using i by (simp add: vmcSocket_send_def ws_send_def)
  with assms True i show ?thesis
    by (simp add: pay_items itemArray_of_def send_or_queue_ensure vendCommand_def)
qed

text \<open>
  Claim C9: an \<^verbatim>\<open>items\<close> value that is truthy and not an array is accepted as the
  one-element array holding it. The request is not rejected: the answer has status 200
  and echoes the array in \<^verbatim>\<open>requestedItems\<close>, and the vend command for that array is
  written to the open upstream socket when the relay is connected, and queued behind a new
  connection attempt when it is not. This is what the request with the array itself does.
\<close>

theorem pay_single_item_coerced:
  assumes "truthy (Some v)" and "\<not> is_array v"
  shows "pay stringify (Some (JObj [(''items'', v)])) st =
           Inr (\<lparr>status = 200,
                 body = JObj [(''ok'', JBool True),
                              (''message'', JStr ''Payment processed, vending requested''),
                              (''requestedItems'', JArr [v])]\<rparr>,
                if vmcConnected st \<and> vmcSocket_open st then
                  (if transport_up (sockets st ! the (vmcSocket st)) then
                     st\<lparr>sockets := (sockets st)[the (vmcSocket st) :=
                          (sockets st ! the (vmcSocket st))
                            \<lparr>sent := sent (sockets st ! the (vmcSocket st))
                                     @ [stringify (JObj [(''type'', JStr ''vend''),
                                                         (''items'', JArr [v])])]\<rparr>]\<rparr>
                   else st)
                else
                  st\<lparr>sockets := sockets st @ [new_WebSocket],
                     vmcSocket := Some (length (sockets st)),
                     pendingMessagesQueue :=
                       pendingMessagesQueue st
                         @ [JObj [(''type'', JStr ''vend''), (''items'', JArr [v])]]\<rparr>)
         \<and> pay stringify (Some (JObj [(''items'', v)])) st =
             pay stringify (Some (JObj [(''items'', JArr [v])])) st"
proof -
  have single: "itemArray_of (Some v) = [v]"
    using assms by (rule itemArray_of_single)
  have array: "itemArray_of (Some (JArr [v])) = [v]"
    by (simp add: itemArray_of_def)
  from single array
  have same: "pay stringify (Some (JObj [(''items'', v)])) st =
      pay stringify (Some (JObj [(''items'', JArr [v])])) st"
    by (simp add: pay_items)
  have ne: "[v] \<noteq> []"
    by simp
  show ?thesis
    unfolding same using pay_nonempty [OF ne, of stringify st] by simp
qed

text \<open>
  The single number 7, once at the start state, where nothing is connected, and once after
  the upstream socket has opened.
\<close>

theorem pay_single_item_coerced_witness:
  "truthy (Some (JNum 7)) \<and> \<not> is_array (JNum 7)
   \<and> pay tag_stringify (Some (JObj [(''items'', JNum 7)])) initial_relay =
       Inr (\<lparr>status = 200,
             body = JObj [(''ok'', JBool True),
                          (''message'', JStr ''Payment processed, vending requested''),
                          (''requestedItems'', JArr [JNum 7])]\<rparr>,
            initial_relay\<lparr>sockets := [new_WebSocket], vmcSocket := Some 0,
               pendingMessagesQueue :=
                 [JObj [(''type'', JStr ''vend''), (''items'', JArr [JNum 7])]]\<rparr>)
   \<and> observe (\<lambda>st. map_sum id (\<lambda>(r, st'). (status r, map sent (sockets st'),
                                            pendingMessagesQueue st'))
                  (pay tag_stringify (Some (JObj [(''items'', JNum 7)])) st))
       (run tag_parse tag_stringify [Listen, VmcOpen 0] initial_relay)
       = Some (Inr (200, [[''vend'']], []))"
proof -
  have h1: "truthy (Some (JNum 7))" and h2: "\<not> is_array (JNum 7)"
    by simp_all
  note t = pay_single_item_coerced [OF h1 h2, of tag_stringify]
  have r: "run tag_parse tag_stringify [Listen, VmcOpen 0] initial_relay =
      Running \<lparr>sockets = [\<lparr>readyState = OPEN, sent = [], transport_up = True\<rparr>],
               vmcSocket = Some 0, vmcConnected = True, vmcReconnectScheduled = False,
               pendingMessagesQueue = [], timers = 0, clients = []\<rparr>"
    by (simp add: relay_defs)
  have a: "pay tag_stringify (Some (JObj [(''items'', JNum 7)])) initial_relay =
       Inr (\<lparr>status = 200,
             body = JObj [(''ok'', JBool True),
                          (''message'', JStr ''Payment processed, vending requested''),
                          (''requestedItems'', JArr [JNum 7])]\<rparr>,
            initial_relay\<lparr>sockets := [new_WebSocket], vmcSocket := Some 0,
               pendingMessagesQueue :=
                 [JObj [(''type'', JStr ''vend''), (''items'', JArr [JNum 7])]]\<rparr>)"
    using t [of initial_relay] by (simp add: initial_relay_def vmcSocket_open_def)
  have b: "observe (\<lambda>st. map_sum id (\<lambda>(r, st'). (status r, map sent (sockets st'),
                                            pendingMessagesQueue st'))
                  (pay tag_stringify (Some (JObj [(''items'', JNum 7)])) st))
       (run tag_parse tag_stringify [Listen, VmcOpen 0] initial_relay)
       = Some (Inr (200, [[''vend'']], []))"
    unfolding r
    using t [of "\<lparr>sockets = [\<lparr>readyState = OPEN, sent = [], transport_up = True\<rparr>],
               vmcSocket = Some 0, vmcConnected = True, vmcReconnectScheduled = False,
               pendingMessagesQueue = [], timers = 0, clients = []\<rparr>"]
    by (simp add: vmcSocket_open_def tag_stringify_def)
  from h1 h2 a b show ?thesis by blast
qed

section \<open>Broadcast and inbound frames\<close>

text \<open>
  Three browsers are connected, the peer of the second goes away, and a status frame
  arrives from the upstream: the first and the third browser receive it, and the handler
  returns.
\<close>

lemma broadcast_with_one_client_lost:
  "observe (\<lambda>st. map sent (clients st))
     (run tag_parse tag_stringify
        [Listen, VmcOpen 0, Connection, Connection, Connection, ClientLost 1,
         VmcMessage 0 ''status''] initial_relay)
   = Some [[''backend-status'', ''status''], [''backend-status''],
           [''backend-status'', ''status'']]"
  by (simp add: relay_defs on_message_def broadcastToFrontend_def JSON_stringify_def)

text \<open>
  Claim C7: \<^verbatim>\<open>broadcast(event)\<close> serialises the event exactly once (the log of
  serialisations holds the event and nothing else) and hands that text to every registered
  client whose socket is open; a client whose socket is not open is skipped and left as it
  is; a client whose write fails is left as it is and keeps no other client from its
  delivery; and no exception reaches the caller (the second component of the result is
  \<open>None\<close>).
\<close>

theorem broadcastToFrontend_delivers:
  "broadcastToFrontend stringify messageObj st =
     (st\<lparr>clients :=
           map (\<lambda>c. if readyState c = OPEN \<and> transport_up c
                     then c\<lparr>sent := sent c @ [stringify messageObj]\<rparr> else c)
             (clients st)\<rparr>, None, [messageObj])"
  by (simp add: broadcastToFrontend_def JSON_stringify_def broadcast_forEach_eq)

text \<open>
  Claim C8: an upstream frame that does not parse is dropped: the handler returns
  normally, the state is unchanged and no client receives anything. A frame that parses
  is broadcast: every open client whose connection takes the write receives its
  serialisation.
\<close>

theorem message_frame_parse_failure_dropped:
  "step parse stringify (VmcMessage i data) st =
     Inr (case parse data of
            None \<Rightarrow> st
          | Some parsed \<Rightarrow>
              st\<lparr>clients :=
                    map (\<lambda>c. if readyState c = OPEN \<and> transport_up c
                              then c\<lparr>sent := sent c @ [stringify parsed]\<rparr> else c)
                      (clients st)\<rparr>)"
  by (simp add: on_message_def broadcastToFrontend_def JSON_stringify_def broadcast_forEach_eq
      split: option.split)

section \<open>The catalogue endpoint\<close>

lemma mapProduct_throws: "(\<exists>e. mapProduct Number raw = Inl e) \<longleftrightarrow> unmappable Number raw"
proof (cases "raw = JNull")
  case True
  then show ?thesis by (simp add: mapProduct_def unmappable_def)
next
  case False
  then have "\<exists>pid. get_prop (Some raw) ''product_id'' = Inr pid"
    by (cases raw) simp_all
  with False show ?thesis
    by (cases "Number (nullish_or (read_prop raw ''product_price'') (JNum 0))")
       (auto simp: mapProduct_def unmappable_def)
qed

lemma map_mapProduct_throws:
  "(\<exists>e. map_mapProduct Number xs = Inl e) \<longleftrightarrow> list_ex (unmappable Number) xs"
proof (induction xs)
  case Nil
  then show ?case by simp
next
  case (Cons raw rest)
  show ?case
  proof (cases "mapProduct Number raw")
    case (Inl e)
    then have "unmappable Number raw"
      using mapProduct_throws [of Number raw] by auto
    with Inl show ?thesis by simp
  next
    case (Inr p)
    then have "\<not> unmappable Number raw"
      using mapProduct_throws [of Number raw] by auto
    with Inr Cons.IH show ?thesis
      by (cases "map_mapProduct Number rest") auto
  qed
qed

text \<open>The \<^verbatim>\<open>catch\<close> of the loop is reached exactly for the failing candidates.\<close>

lemma try_candidate_fails:
  "(\<exists>e. try_candidate readFile parse Number p = Inl e)
     \<longleftrightarrow> candidate_fails readFile parse Number p"
  using map_mapProduct_throws [of Number]
  by (auto simp: try_candidate_def candidate_fails_def split: option.splits json.splits)

lemma loadProducts_loop_throws:
  "(\<exists>e. loadProducts_loop readFile parse Number cs lastErr = Inl e) \<longleftrightarrow>
     (\<forall>p \<in> set cs. candidate_fails readFile parse Number p)"
proof (induction cs arbitrary: lastErr)
  case Nil
  then show ?case by simp
next
  case (Cons p ps)
  show ?case
  proof (cases "try_candidate readFile parse Number p")
    case (Inl e)
    then have "candidate_fails readFile parse Number p"
      using try_candidate_fails [of readFile parse Number p] by auto
    with Inl Cons.IH [of "Some e"] show ?thesis by simp
  next
    case (Inr prods)
    then have "\<not> candidate_fails readFile parse Number p"
      using try_candidate_fails [of readFile parse Number p] by auto
    with Inr show ?thesis by simp
  qed
qed

lemma loadProducts_loop_skips:
  "\<forall>q \<in> set pre. candidate_fails readFile parse Number q \<Longrightarrow>
   loadProducts_loop readFile parse Number (pre @ p # post) lastErr =
     (case try_candidate readFile parse Number p of
        Inr prods \<Rightarrow> Inr prods
      | Inl e \<Rightarrow> loadProducts_loop readFile parse Number post (Some e))"
proof (induction pre arbitrary: lastErr)
  case Nil
  then show ?case by simp
next
  case (Cons q qs)
  then obtain e where "try_candidate readFile parse Number q = Inl e"
    using try_candidate_fails [of readFile parse Number q] by auto
  with Cons show ?case by simp
qed

lemma srv_candidates_eq:
  "srv_candidates =
     [''/srv/backend/data.json'', ''/srv/data.json'', ''/srv/backend/data.json'',
      ''/srv/data.json'']"
  by (simp add: srv_candidates_def candidates_def resolve_table_def)

lemma parse_table_price_text:
  "parse_table price_text =
     Some (JArr [JObj [(''product_id'', JNum 1),
                       (''product_price'', JObj [(''toString'', JNum 1)])]])"
proof -
  have "price_text \<noteq> ''[null]''" and "price_text \<noteq> ''{}''"
    by (simp_all add: price_text_def)
  then show ?thesis by (simp add: parse_table_def)
qed

text \<open>
  A data file whose only product has a price that \<^verbatim>\<open>Number\<close> cannot convert: the file is
  read and parsed, the conversion throws inside the \<^verbatim>\<open>try\<close> block, and the answer is 500.
\<close>

lemma get_products_500_on_price:
  "get_products (fs_with price_text) parse_table Number_table srv_candidates =
     Error500 (JObj [(''error'', JStr ''Failed to load products'')])"
  by (simp add: srv_candidates_eq get_products_def loadProducts_def try_candidate_def
      fs_with_def parse_table_price_text mapProduct_def read_prop_def)

text \<open>
  Claim C10, as stated: the answer is 200 with the empty list when a readable data file
  parses to a value that is not an array, and the 500 answer is produced only when every
  candidate path fails to read or parse. The second half fails: with the only data file
  holding \<^verbatim>\<open>[null]\<close>, the file is read and parsed, \<^verbatim>\<open>mapProduct\<close> throws on the
  \<^verbatim>\<open>null\<close> element inside the \<^verbatim>\<open>try\<close> block, and the answer is 500.
\<close>

theorem get_products_500_though_parsed:
  "get_products (fs_with ''[null]'') parse_table Number_table srv_candidates =
     Error500 (JObj [(''error'', JStr ''Failed to load products'')])
   \<and> ''/srv/data.json'' \<in> set srv_candidates
   \<and> fs_with ''[null]'' ''/srv/data.json'' = Some ''[null]''
   \<and> parse_table ''[null]'' = Some (JArr [JNull])"
  by (simp add: srv_candidates_eq get_products_def loadProducts_def try_candidate_def
      fs_with_def parse_table_def mapProduct_def)

text \<open>
  Claim C10, amended: the 500 answer is produced exactly when every candidate fails: its
  file cannot be read, or its text does not parse, or it parses to an array with an
  element on which \<^verbatim>\<open>mapProduct\<close> throws (a \<^verbatim>\<open>null\<close> element, or an element on whose
  price \<^verbatim>\<open>Number\<close> throws). And the answer is 200 with the empty list when a candidate is
  read and parses to a value that is not an array, and every candidate before it fails in
  that sense.
\<close>

theorem get_products_500_iff_all_fail:
  "(get_products readFile parse Number cs =
      Error500 (JObj [(''error'', JStr ''Failed to load products'')])
      \<longleftrightarrow> (\<forall>p \<in> set cs. candidate_fails readFile parse Number p))
   \<and> ((\<forall>q \<in> set pre. candidate_fails readFile parse Number q) \<and> readFile p = Some content
        \<and> parse content = Some v \<and> \<not> is_array v
      \<longrightarrow> get_products readFile parse Number (pre @ p # post) = Products200 [])"
proof (intro conjI impI)
  show "get_products readFile parse Number cs =
      Error500 (JObj [(''error'', JStr ''Failed to load products'')])
      \<longleftrightarrow> (\<forall>p \<in> set cs. candidate_fails readFile parse Number p)"
    using loadProducts_loop_throws [of readFile parse Number cs None]
    by (cases "loadProducts_loop readFile parse Number cs None")
       (auto simp: get_products_def loadProducts_def)
next
  assume a: "(\<forall>q \<in> set pre. candidate_fails readFile parse Number q)
        \<and> readFile p = Some content \<and> parse content = Some v \<and> \<not> is_array v"
  then have "try_candidate readFile parse Number p = Inr []"
    by (cases v) (simp_all add: try_candidate_def)
  with a show "get_products readFile parse Number (pre @ p # post) = Products200 []"
    by (simp add: get_products_def loadProducts_def loadProducts_loop_skips)
qed

text \<open>
  The installation whose data file holds \<^verbatim>\<open>{}\<close>: the first candidate cannot be read, the
  second is read and is an object, and the answer is 200 with no products. With the data
  file of \<open>get_products_500_on_price\<close> every candidate fails, the second and the fourth on
  the price.
\<close>

theorem get_products_500_iff_all_fail_witness:
  "candidate_fails (fs_with ''{}'') parse_table Number_table ''/srv/backend/data.json''
   \<and> fs_with ''{}'' ''/srv/data.json'' = Some ''{}''
   \<and> parse_table ''{}'' = Some (JObj [])
   \<and> \<not> is_array (JObj [])
   \<and> get_products (fs_with ''{}'') parse_table Number_table srv_candidates = Products200 []
   \<and> \<not> candidate_fails (fs_with ''{}'') parse_table Number_table ''/srv/data.json''
   \<and> candidate_fails (fs_with price_text) parse_table Number_table ''/srv/backend/data.json''
   \<and> candidate_fails (fs_with price_text) parse_table Number_table ''/srv/data.json''
   \<and> get_products (fs_with price_text) parse_table Number_table srv_candidates =
       Error500 (JObj [(''error'', JStr ''Failed to load products'')])"
proof -
  have pre: "\<forall>q \<in> set [''/srv/backend/data.json''].
      candidate_fails (fs_with ''{}'') parse_table Number_table q"
    by (simp add: candidate_fails_def fs_with_def)
  have rd: "fs_with ''{}'' ''/srv/data.json'' = Some ''{}''"
    by (simp add: fs_with_def)
  have pr: "parse_table ''{}'' = Some (JObj [])"
    by (simp add: parse_table_def)
  have na: "\<not> is_array (JObj [])"
    by simp
  have split: "srv_candidates =
      [''/srv/backend/data.json''] @ ''/srv/data.json''
        # [''/srv/backend/data.json'', ''/srv/data.json'']"
    by (simp add: srv_candidates_eq)
  note t = get_products_500_iff_all_fail [of "fs_with ''{}''" parse_table Number_table
      srv_candidates "[''/srv/backend/data.json'']" "''/srv/data.json''" "''{}''" "JObj []"
      "[''/srv/backend/data.json'', ''/srv/data.json'']"]
  from t pre rd pr na
  have ok: "get_products (fs_with ''{}'') parse_table Number_table srv_candidates = Products200 []"
    unfolding split by blast
  with t have "\<not> (\<forall>p \<in> set srv_candidates.
      candidate_fails (fs_with ''{}'') parse_table Number_table p)"
    by simp
  then have nf: "\<not> candidate_fails (fs_with ''{}'') parse_table Number_table ''/srv/data.json''"
    using pre by (simp add: srv_candidates_eq)
  have f1: "candidate_fails (fs_with price_text) parse_table Number_table
      ''/srv/backend/data.json''"
    by (simp add: candidate_fails_def fs_with_def)
  have f2: "candidate_fails (fs_with price_text) parse_table Number_table ''/srv/data.json''"
    by (simp add: candidate_fails_def fs_with_def parse_table_price_text unmappable_def
        read_prop_def)
  note u = get_products_500_iff_all_fail [of "fs_with price_text" parse_table Number_table
      srv_candidates "[]" "''/srv/data.json''" "''{}''" "JObj []" "[]"]
  from u f1 f2
  have bad: "get_products (fs_with price_text) parse_table Number_table srv_candidates =
       Error500 (JObj [(''error'', JStr ''Failed to load products'')])"
    by (simp add: srv_candidates_eq)
  from pre rd pr na ok nf f1 f2 bad show ?thesis by simp
qed

section \<open>The vend state of the page\<close>

lemmas ui_defs =
  Products_onMessage_def onMessage_def initial_ui_def initial_modal_def elapse_def
  showToast_def Let_def

text \<open>
  With the closure of the first render, a status event other than \<^verbatim>\<open>vending\<close> always
  resets the three pieces of state.
\<close>

lemma status_idle_effect:
  "s \<noteq> ''vending'' \<Longrightarrow>
   Products_onMessage (Status s message) st =
     st\<lparr>isVending := False, activeMessage := [],
        modal := (modal st)\<lparr>open' := False, stage := Idle, text' := []\<rparr>\<rparr>"
  by (simp add: Products_onMessage_def onMessage_def initial_modal_def Let_def)

text \<open>A handler that read the current \<^verbatim>\<open>modal\<close> would keep a complete overlay.\<close>

lemma current_modal_keeps_complete:
  "stage (modal st) = Complete \<Longrightarrow>
   modal (onMessage (modal st) (Status ''idle'' message) st) = modal st"
  by (simp add: onMessage_def Let_def)

text \<open>
  Claim C4: a status event with status idle sets the state to idle, clears the toast and
  closes the overlay, except that a complete overlay that is showing is never closed by
  it. The first half is \<open>status_idle_effect\<close>. The exception does not hold: the test
  \<^verbatim>\<open>modal.stage !== 'complete'\<close> reads the \<^verbatim>\<open>modal\<close> of the first render, whose stage is
  idle, so after \<^verbatim>\<open>vend-complete\<close> has opened the complete overlay an idle status closes
  it.
\<close>

theorem complete_overlay_closed_by_idle_status:
  "(let st = Products_onMessage VendComplete initial_ui;
        st' = Products_onMessage (Status ''idle'' None) st
    in (open' (modal st), stage (modal st), open' (modal st'), stage (modal st')))
   = (True, Complete, False, Idle)"
  by (simp add: ui_defs)

text \<open>
  Claim C5: from the start state, \<^verbatim>\<open>status(vending)\<close> followed by \<^verbatim>\<open>vend-complete\<close>
  takes the overlay stage through idle, vending, complete; \<open>d\<close> milliseconds later the
  stage is still complete when \<open>d\<close> is below 1500 and idle from 1500 on; and over the whole
  run the toast text "Vending complete" comes up exactly once.
\<close>

theorem vend_sequence_phases:
  "map (\<lambda>st. stage (modal st))
     (ui_trace [Message (Status ''vending'' m), Message VendComplete, Elapse d] initial_ui)
     = [Idle, Vending, Complete, if d < 1500 then Complete else Idle]
   \<and> appearances ''Vending complete'' []
       (map activeMessage
          (ui_trace [Message (Status ''vending'' m), Message VendComplete, Elapse d] initial_ui))
     = 1"
proof -
  have toast: "map activeMessage
      (ui_trace [Message (Status ''vending'' m), Message VendComplete, Elapse d] initial_ui)
      = [[], case m of None \<Rightarrow> ''Vending started'' | Some t \<Rightarrow> t, ''Vending complete'',
         if d < 2500 then ''Vending complete'' else []]"
    by (simp add: ui_defs)
  have stages: "map (\<lambda>st. stage (modal st))
      (ui_trace [Message (Status ''vending'' m), Message VendComplete, Elapse d] initial_ui)
      = [Idle, Vending, Complete, if d < 1500 then Complete else Idle]"
    by (simp add: ui_defs)
  have "appearances ''Vending complete'' []
      [[], case m of None \<Rightarrow> ''Vending started'' | Some t \<Rightarrow> t, ''Vending complete'',
       if d < 2500 then ''Vending complete'' else []] = 1"
    by (simp split: option.split)
  with toast stages show ?thesis by simp
qed

end
